theory Spec2Isabelle
  imports Main "HOL-Library.Sublist"
begin

section \<open>The library catalog of library.py\<close>

text \<open>
  A shallow embedding of \<^verbatim>\<open>library.py\<close>: the classes \<^verbatim>\<open>Book\<close>, \<^verbatim>\<open>Services\<close> and
  \<^verbatim>\<open>Library\<close>. The interactive menu of \<^verbatim>\<open>main\<close> only reads input and calls the
  methods of \<^verbatim>\<open>Library\<close>; it is not modelled.

  Conventions.
  \<^item> A Python \<^verbatim>\<open>str\<close> is a \<open>string\<close> holding its UTF-8 bytes. Equality and the
    substring test \<^verbatim>\<open>in\<close> of two Python strings agree with equality and \<open>sublist\<close>
    of their UTF-8 bytes.
  \<^item> A \<^verbatim>\<open>Book\<close> object is a record whose fields have the types the annotations of
    \<^verbatim>\<open>Book.__init__\<close> give: \<^verbatim>\<open>id: int\<close>, \<^verbatim>\<open>title: str\<close>, \<^verbatim>\<open>author: str\<close>,
    \<^verbatim>\<open>year: int\<close>, and a string for \<^verbatim>\<open>status\<close>.
  \<^item> An exception that leaves a method is a value \<open>Inl e\<close>.
  \<^item> What a method prints is what it returns in the model (the methods of
    \<^verbatim>\<open>Library\<close> return \<^verbatim>\<open>None\<close> and report through \<^verbatim>\<open>print\<close>).
\<close>

subsection \<open>Book\<close>

record book =
  id' :: int
  title :: string
  author :: string
  year :: int
  status :: string

text \<open>
  The two status strings of the source are Cyrillic; they are written here by their
  UTF-8 bytes. \<open>status_available\<close> is the default of \<^verbatim>\<open>Book.__init__\<close>
  (U+0432 U+0020 U+043D U+0430 U+043B U+0438 U+0447 U+0438 U+0438), and
  \<open>status_checked_out\<close> the other legal value of \<^verbatim>\<open>change_status\<close>
  (U+0432 U+044B U+0434 U+0430 U+043D U+0430).
\<close>

definition status_available :: string where
  "status_available =
     [CHR 0xD0, CHR 0xB2, CHR 0x20, CHR 0xD0, CHR 0xBD, CHR 0xD0, CHR 0xB0, CHR 0xD0, CHR 0xBB,
      CHR 0xD0, CHR 0xB8, CHR 0xD1, CHR 0x87, CHR 0xD0, CHR 0xB8, CHR 0xD0, CHR 0xB8]"

definition status_checked_out :: string where
  "status_checked_out =
     [CHR 0xD0, CHR 0xB2, CHR 0xD1, CHR 0x8B, CHR 0xD0, CHR 0xB4, CHR 0xD0, CHR 0xB0,
      CHR 0xD0, CHR 0xBD, CHR 0xD0, CHR 0xB0]"

text \<open>
  The values \<^verbatim>\<open>json.load\<close> returns. A dict is an association list in insertion order
  (the keys of a dict that \<^verbatim>\<open>json.load\<close> builds are distinct strings). A float
  carries no payload: no path of the program computes with one.
\<close>

datatype json =
    JNull
  | JBool bool
  | JInt int
  | JFloat
  | JStr string
  | JArray "json list"
  | JObject "(string \<times> json) list"

datatype error =
    TypeError
  | AttributeError
  | UnicodeDecodeError
  | OutsideModel
    \<comment> \<open>not a Python exception: Python goes on with a value the model has no type for\<close>

text \<open>\<^verbatim>\<open>Book.to_dict\<close>.\<close>

definition to_dict :: "book \<Rightarrow> (string \<times> json) list" where
  "to_dict b =
     [(''id'', JInt (id' b)),
      (''title'', JStr (title b)),
      (''author'', JStr (author b)),
      (''year'', JInt (year b)),
      (''status'', JStr (status b))]"

text \<open>
  \<^verbatim>\<open>Book(**book)\<close> on a dict: a key that is no parameter of \<^verbatim>\<open>__init__\<close> and a
  missing \<^verbatim>\<open>id\<close>, \<^verbatim>\<open>title\<close>, \<^verbatim>\<open>author\<close> or \<^verbatim>\<open>year\<close> raise TypeError; \<^verbatim>\<open>status\<close>
  defaults. Python checks no types here: a value of another type than the annotation
  gives an object the record cannot hold, and the model stops with \<open>OutsideModel\<close>.
\<close>

definition as_int :: "json \<Rightarrow> error + int" where
  "as_int v = (case v of JInt i \<Rightarrow> Inr i | _ \<Rightarrow> Inl OutsideModel)"

definition as_str :: "json \<Rightarrow> error + string" where
  "as_str v = (case v of JStr s \<Rightarrow> Inr s | _ \<Rightarrow> Inl OutsideModel)"

definition Book_kwargs :: "(string \<times> json) list \<Rightarrow> error + book" where
  "Book_kwargs kw =
     (if \<exists>k \<in> set (map fst kw). k \<notin> set [''id'', ''title'', ''author'', ''year'', ''status'']
      then Inl TypeError
      else
        case (map_of kw ''id'', map_of kw ''title'', map_of kw ''author'', map_of kw ''year'') of
          (Some i, Some t, Some a, Some y) \<Rightarrow>
            (case (as_int i, as_str t, as_str a, as_int y,
                   case map_of kw ''status'' of
                     None \<Rightarrow> Inr status_available
                   | Some s \<Rightarrow> as_str s) of
               (Inr i', Inr t', Inr a', Inr y', Inr s') \<Rightarrow>
                 Inr \<lparr>id' = i', title = t', author = a', year = y', status = s'\<rparr>
             | _ \<Rightarrow> Inl OutsideModel)
        | _ \<Rightarrow> Inl TypeError)"

subsection \<open>Services: the backing file\<close>

text \<open>
  The file system and the \<^verbatim>\<open>json\<close> module are not code of the repository. The file
  at \<^verbatim>\<open>data_file\<close> is modelled by what \<^verbatim>\<open>load_data\<close> observes of it, one constructor
  for each way the method can go:
  \<^item> \<open>Absent\<close>: \<^verbatim>\<open>os.path.exists\<close> is false;
  \<^item> \<open>ZeroLength\<close>: \<^verbatim>\<open>st_size == 0\<close>;
  \<^item> \<open>NotUtf8\<close>: the bytes are not UTF-8, so reading the text raises
    UnicodeDecodeError;
  \<^item> \<open>NotJson\<close>: \<^verbatim>\<open>json.load\<close> raises JSONDecodeError;
  \<^item> \<open>JsonText v\<close>: \<^verbatim>\<open>json.load\<close> returns \<open>v\<close>.
  \<^verbatim>\<open>json.dump\<close> of a list of dicts of ints and strings writes a text that
  \<^verbatim>\<open>json.load\<close> reads back as the same value, so the file \<^verbatim>\<open>save_data\<close> writes is
  \<open>JsonText\<close> of that value.
\<close>

datatype disk_file = Absent | ZeroLength | NotUtf8 | NotJson | JsonText json

datatype message =
    MissingOrEmpty
  | Corrupted
  | Added string int
  | NotFound int
  | Deleted int
  | BadStatus
  | StatusChanged int string

text \<open>The comprehension \<^verbatim>\<open>[Book(**book) for book in data]\<close> over the items of a list.\<close>

fun books_of_items :: "json list \<Rightarrow> error + book list" where
  "books_of_items [] = Inr []"
| "books_of_items (JObject kw # rest) =
     (case Book_kwargs kw of
        Inl e \<Rightarrow> Inl e
      | Inr b \<Rightarrow>
          (case books_of_items rest of
             Inl e \<Rightarrow> Inl e
           | Inr bs \<Rightarrow> Inr (b # bs)))"
| "books_of_items (_ # rest) = Inl TypeError"

text \<open>
  The same comprehension over any value: iterating a dict gives its keys and iterating
  a string its characters, and \<^verbatim>\<open>**\<close> of a string raises TypeError; a number, a
  boolean and \<^verbatim>\<open>None\<close> are not iterable.
\<close>

definition books_of_json :: "json \<Rightarrow> error + book list" where
  "books_of_json data =
     (case data of
        JArray items \<Rightarrow> books_of_items items
      | JObject kw \<Rightarrow> (if kw = [] then Inr [] else Inl TypeError)
      | JStr s \<Rightarrow> (if s = [] then Inr [] else Inl TypeError)
      | _ \<Rightarrow> Inl TypeError)"

text \<open>
  \<^verbatim>\<open>Services.load_data\<close>: the diagnostic it prints, if any, and the list it returns.
  Only JSONDecodeError is caught.
\<close>

definition load_data :: "disk_file \<Rightarrow> error + (message option \<times> book list)" where
  "load_data f =
     (case f of
        Absent \<Rightarrow> Inr (Some MissingOrEmpty, [])
      | ZeroLength \<Rightarrow> Inr (Some MissingOrEmpty, [])
      | NotUtf8 \<Rightarrow> Inl UnicodeDecodeError
      | NotJson \<Rightarrow> Inr (Some Corrupted, [])
      | JsonText data \<Rightarrow>
          (case books_of_json data of
             Inl e \<Rightarrow> Inl e
           | Inr bs \<Rightarrow> Inr (None, bs)))"

text \<open>\<^verbatim>\<open>Services.save_data\<close>: the file after the call.\<close>

definition save_data :: "book list \<Rightarrow> disk_file" where
  "save_data bs = JsonText (JArray (map (\<lambda>b. JObject (to_dict b)) bs))"

subsection \<open>Library\<close>

text \<open>The state: the list \<^verbatim>\<open>self.books\<close> and the file behind \<^verbatim>\<open>self.services\<close>.\<close>

record library =
  books :: "book list"
  data_file :: disk_file

text \<open>\<^verbatim>\<open>Library.__init__\<close>.\<close>

definition Library_init :: "disk_file \<Rightarrow> error + library" where
  "Library_init f =
     (case load_data f of
        Inl e \<Rightarrow> Inl e
      | Inr (m, bs) \<Rightarrow> Inr \<lparr>books = bs, data_file = f\<rparr>)"

text \<open>\<^verbatim>\<open>max(xs, default=d)\<close> on a list of ints.\<close>

definition max_default :: "int list \<Rightarrow> int \<Rightarrow> int" where
  "max_default xs d = (case xs of [] \<Rightarrow> d | x # ys \<Rightarrow> fold max ys x)"

definition generate_id :: "library \<Rightarrow> int" where
  "generate_id s = max_default (map id' (books s)) 0 + 1"

definition add_book :: "library \<Rightarrow> string \<Rightarrow> string \<Rightarrow> int \<Rightarrow> message \<times> library" where
  "add_book s t a y =
     (let new_book = \<lparr>id' = generate_id s, title = t, author = a, year = y,
                       status = status_available\<rparr>;
          bs = books s @ [new_book]
      in (Added t (id' new_book), \<lparr>books = bs, data_file = save_data bs\<rparr>))"

definition delete_book :: "library \<Rightarrow> int \<Rightarrow> message \<times> library" where
  "delete_book s book_id =
     (if \<not> list_ex (\<lambda>b. id' b = book_id) (books s) then (NotFound book_id, s)
      else
        let bs = filter (\<lambda>b. id' b \<noteq> book_id) (books s)
        in (Deleted book_id, \<lparr>books = bs, data_file = save_data bs\<rparr>))"

text \<open>
  \<^verbatim>\<open>getattr(book, field)\<close>: the five attributes \<^verbatim>\<open>__init__\<close> sets and the method
  \<^verbatim>\<open>to_dict\<close>. The names every Python object carries start with two underscores
  (\<^verbatim>\<open>__doc__\<close>, \<^verbatim>\<open>__class__\<close>, ...); they are outside the model. Any other name raises
  AttributeError.
\<close>

datatype attr = AInt int | AStr string | AMethod

definition getattr :: "book \<Rightarrow> string \<Rightarrow> error + attr" where
  "getattr b field =
     (if field = ''id'' then Inr (AInt (id' b))
      else if field = ''title'' then Inr (AStr (title b))
      else if field = ''author'' then Inr (AStr (author b))
      else if field = ''year'' then Inr (AInt (year b))
      else if field = ''status'' then Inr (AStr (status b))
      else if field = ''to_dict'' then Inr AMethod
      else if take 2 field = ''__'' then Inl OutsideModel
      else Inl AttributeError)"

text \<open>
  \<^verbatim>\<open>.lower()\<close> on an attribute: only a string has the method. Python's \<^verbatim>\<open>str.lower\<close>
  follows the Unicode tables and is a parameter \<open>lower\<close> of the model.
\<close>

definition attr_lower :: "(string \<Rightarrow> string) \<Rightarrow> attr \<Rightarrow> error + string" where
  "attr_lower lower v = (case v of AStr s \<Rightarrow> Inr (lower s) | _ \<Rightarrow> Inl AttributeError)"

text \<open>
  \<^verbatim>\<open>Library.search_books\<close>: the list \<^verbatim>\<open>results\<close>, which the method prints. The
  comprehension stops at the first book whose test raises.
\<close>

fun search_in :: "(string \<Rightarrow> string) \<Rightarrow> string \<Rightarrow> string \<Rightarrow> book list \<Rightarrow> error + book list" where
  "search_in lower query field [] = Inr []"
| "search_in lower query field (b # bs) =
     (case getattr b field of
        Inl e \<Rightarrow> Inl e
      | Inr v \<Rightarrow>
          (case attr_lower lower v of
             Inl e \<Rightarrow> Inl e
           | Inr s \<Rightarrow>
               (case search_in lower query field bs of
                  Inl e \<Rightarrow> Inl e
                | Inr rs \<Rightarrow> Inr (if sublist (lower query) s then b # rs else rs))))"

definition search_books :: "(string \<Rightarrow> string) \<Rightarrow> library \<Rightarrow> string \<Rightarrow> string \<Rightarrow> error + book list" where
  "search_books lower s query field = search_in lower query field (books s)"


text \<open>
  The loop of \<^verbatim>\<open>Library.change_status\<close>: the first book with the id gets the status
  and the loop ends; \<open>None\<close> when the loop runs to its end.
\<close>

fun set_first_status :: "int \<Rightarrow> string \<Rightarrow> book list \<Rightarrow> book list option" where
  "set_first_status book_id new_status [] = None"
| "set_first_status book_id new_status (b # bs) =
     (if id' b = book_id then Some (b\<lparr>status := new_status\<rparr> # bs)
      else map_option ((#) b) (set_first_status book_id new_status bs))"

definition change_status :: "library \<Rightarrow> int \<Rightarrow> string \<Rightarrow> message \<times> library" where
  "change_status s book_id new_status =
     (if new_status \<notin> set [status_available, status_checked_out] then (BadStatus, s)
      else
        case set_first_status book_id new_status (books s) of
          Some bs \<Rightarrow> (StatusChanged book_id new_status, \<lparr>books = bs, data_file = save_data bs\<rparr>)
        | None \<Rightarrow> (NotFound book_id, s))"

subsection \<open>Sequences of calls\<close>

datatype call = Add string string int | Delete int | SetStatus int string

fun perform :: "library \<Rightarrow> call \<Rightarrow> message \<times> library" where
  "perform s (Add t a y) = add_book s t a y"
| "perform s (Delete i) = delete_book s i"
| "perform s (SetStatus i st) = change_status s i st"

fun run :: "library \<Rightarrow> call list \<Rightarrow> library" where
  "run s [] = s"
| "run s (c # cs) = run (snd (perform s c)) cs"


text \<open>The library of an absent backing file.\<close>

definition empty_library :: library where
  "empty_library = \<lparr>books = [], data_file = Absent\<rparr>"


text \<open>
  \<^verbatim>\<open>str.lower\<close> on ASCII text, where it maps the letters A to Z to a to z and keeps
  every other character: the instance of the parameter \<open>lower\<close> in the examples.
\<close>

definition ascii_lower :: "string \<Rightarrow> string" where
  "ascii_lower =
     map (\<lambda>c. case map_of (zip ''ABCDEFGHIJKLMNOPQRSTUVWXYZ'' ''abcdefghijklmnopqrstuvwxyz'') c of
                 Some d \<Rightarrow> d
               | None \<Rightarrow> c)"

text \<open>The two books of the scenarios.\<close>

definition dune :: book where
  "dune = \<lparr>id' = 1, title = ''Dune'', author = ''Herbert'', year = 1965,
            status = status_available\<rparr>"

definition foundation :: book where
  "foundation = \<lparr>id' = 2, title = ''Foundation'', author = ''Asimov'', year = 1951,
                  status = status_available\<rparr>"

section \<open>Identifiers\<close>

lemma max_default_Nil: "max_default [] d = d"
  by (simp add: max_default_def)

lemma max_default_Max: "xs \<noteq> [] \<Longrightarrow> max_default xs d = Max (set xs)"
proof (cases xs)
  case Nil
  assume "xs \<noteq> []"
  with Nil show ?thesis by simp
next
  case (Cons x ys)
  have "fold max ys x = Max (set (x # ys))"
    by (rule Max.set_eq_fold [symmetric])
  with Cons show ?thesis by (simp add: max_default_def)
qed

lemma generate_id_greater: "b \<in> set (books s) \<Longrightarrow> id' b < generate_id s"
proof -
  assume b: "b \<in> set (books s)"
  then have ne: "map id' (books s) \<noteq> []" by auto
  have "id' b \<le> Max (set (map id' (books s)))" using b by simp
  then show ?thesis by (simp add: generate_id_def max_default_Max [OF ne])
qed

lemma generate_id_empty: "books s = [] \<Longrightarrow> generate_id s = 1"
  by (simp add: generate_id_def max_default_Nil)

lemma generate_id_Max:
  "books s \<noteq> [] \<Longrightarrow> generate_id s = 1 + Max (set (map id' (books s)))"
  by (simp add: generate_id_def max_default_Max)

lemma generate_id_fresh: "generate_id s \<notin> set (map id' (books s))"
  using generate_id_greater [of _ s] by fastforce

lemma books_add_book:
  "books (snd (add_book s t a y)) =
     books s @ [\<lparr>id' = generate_id s, title = t, author = a, year = y,
                  status = status_available\<rparr>]"
  by (simp add: add_book_def Let_def)

lemma delete_only_book:
  "books s = [b] \<Longrightarrow> books (snd (delete_book s (id' b))) = []"
  by (simp add: delete_book_def Let_def)

text \<open>
  C4. \<^verbatim>\<open>generate_id\<close> returns 1 on an empty collection and otherwise 1 plus the
  greatest id of the current records; so when the only record, with id 1, has been
  deleted, the next \<^verbatim>\<open>add_book\<close> assigns id 1 again.
\<close>

theorem generate_id_one_plus_max:
  "(books s = [] \<longrightarrow> generate_id s = 1)
   \<and> (books s \<noteq> [] \<longrightarrow> generate_id s = 1 + Max (set (map id' (books s))))
   \<and> (books s = [b] \<and> id' b = 1 \<longrightarrow>
        fst (add_book (snd (delete_book s 1)) t a y) = Added t 1
        \<and> map id' (books (snd (add_book (snd (delete_book s 1)) t a y))) = [1])"
proof (intro conjI impI)
  assume "books s = []"
  then show "generate_id s = 1" by (rule generate_id_empty)
next
  assume "books s \<noteq> []"
  then show "generate_id s = 1 + Max (set (map id' (books s)))" by (rule generate_id_Max)
next
  assume h: "books s = [b] \<and> id' b = 1"
  then have e: "books (snd (delete_book s 1)) = []"
    using delete_only_book [of s b] by simp
  then have g: "generate_id (snd (delete_book s 1)) = 1" by (rule generate_id_empty)
  show "fst (add_book (snd (delete_book s 1)) t a y) = Added t 1"
    using g by (simp add: add_book_def Let_def)
  show "map id' (books (snd (add_book (snd (delete_book s 1)) t a y))) = [1]"
    using e g by (simp add: books_add_book)
qed

theorem generate_id_one_plus_max_witness:
  "generate_id empty_library = 1
   \<and> generate_id \<lparr>books = [foundation, dune], data_file = Absent\<rparr> = 3
   \<and> fst (add_book (snd (delete_book \<lparr>books = [dune], data_file = Absent\<rparr> 1))
           ''Emma'' ''Austen'' 1815) = Added ''Emma'' 1"
  using generate_id_one_plus_max [of empty_library]
    generate_id_one_plus_max [of "\<lparr>books = [foundation, dune], data_file = Absent\<rparr>"]
    generate_id_one_plus_max
      [of "\<lparr>books = [dune], data_file = Absent\<rparr>" dune "''Emma''" "''Austen''" 1815]
  by (simp add: empty_library_def dune_def foundation_def)

section \<open>The backing file\<close>

lemma Book_kwargs_to_dict: "Book_kwargs (to_dict b) = Inr b"
  by (simp add: Book_kwargs_def to_dict_def as_int_def as_str_def)

lemma books_of_items_to_dict:
  "books_of_items (map (\<lambda>b. JObject (to_dict b)) bs) = Inr bs"
  by (induction bs) (simp_all add: Book_kwargs_to_dict)

lemma load_data_save_data: "load_data (save_data bs) = Inr (None, bs)"
  by (simp add: load_data_def save_data_def books_of_json_def books_of_items_to_dict)

text \<open>
  C5. Round trip: a non-empty collection that \<^verbatim>\<open>save_data\<close> has written is read back
  by \<^verbatim>\<open>load_data\<close> as the same records, in the same order, with the same field
  values, and with no diagnostic; a \<^verbatim>\<open>Library\<close> built on the written file holds
  exactly these records.
\<close>

theorem save_load_round_trip:
  assumes "bs \<noteq> []"
  shows "load_data (save_data bs) = Inr (None, bs)
         \<and> Library_init (save_data bs) = Inr \<lparr>books = bs, data_file = save_data bs\<rparr>"
  by (simp add: Library_init_def load_data_save_data)

theorem save_load_round_trip_witness:
  "[dune, foundation] \<noteq> []
   \<and> load_data (save_data [dune, foundation]) = Inr (None, [dune, foundation])
   \<and> map title (books (projr (Library_init (save_data [dune, foundation]))))
       = [''Dune'', ''Foundation'']"
  using save_load_round_trip [of "[dune, foundation]"]
  by (simp add: dune_def foundation_def)

text \<open>
  C3, as the code has it. \<^verbatim>\<open>load_data\<close> returns the empty list with the
  diagnostic of a missing or empty file exactly when the file is absent or has length
  zero, and the empty list with the distinct diagnostic of a corrupt file exactly when
  \<^verbatim>\<open>json.load\<close> raises JSONDecodeError, that is, when the text is not JSON. Neither
  case raises.
\<close>

theorem load_data_empty_or_not_json:
  "(load_data f = Inr (Some MissingOrEmpty, []) \<longleftrightarrow> f = Absent \<or> f = ZeroLength)
   \<and> (load_data f = Inr (Some Corrupted, []) \<longleftrightarrow> f = NotJson)"
  by (cases f) (auto simp: load_data_def split: sum.splits)

theorem load_data_empty_or_not_json_witness:
  "load_data Absent = Inr (Some MissingOrEmpty, [])
   \<and> load_data ZeroLength = Inr (Some MissingOrEmpty, [])
   \<and> load_data NotJson = Inr (Some Corrupted, [])
   \<and> load_data (save_data [dune]) \<noteq> Inr (Some Corrupted, [])"
  using load_data_empty_or_not_json [of Absent] load_data_empty_or_not_json [of ZeroLength]
    load_data_empty_or_not_json [of NotJson] load_data_empty_or_not_json [of "save_data [dune]"]
  by (simp add: save_data_def)

text \<open>
  C3, as the specification has it, fails: a file that holds the JSON text \<^verbatim>\<open>[1]\<close> is
  present, is not empty and is not a sequence of records, and \<^verbatim>\<open>load_data\<close> raises
  TypeError on it (\<^verbatim>\<open>Book(**1)\<close>); so does a record that lacks its fields.
\<close>

theorem load_data_wrong_shape_raises:
  "load_data (JsonText (JArray [JInt 1])) = Inl TypeError
   \<and> load_data (JsonText (JArray [JObject [(''id'', JInt 1)]])) = Inl TypeError"
  by (simp add: load_data_def books_of_json_def Book_kwargs_def)

section \<open>Adding a book\<close>



section \<open>Identifiers across a sequence of calls\<close>

lemma set_first_status_ids:
  "set_first_status i ns bs = Some bs' \<Longrightarrow> map id' bs' = map id' bs"
  by (induction bs arbitrary: bs') (auto split: if_splits)







lemma perform_distinct:
  "distinct (map id' (books s)) \<Longrightarrow> distinct (map id' (books (snd (perform s c))))"
proof (cases c)
  case (Add t a y)
  assume "distinct (map id' (books s))"
  then show ?thesis using Add generate_id_fresh [of s] by (simp add: books_add_book)
next
  case (Delete i)
  assume "distinct (map id' (books s))"
  then show ?thesis using Delete by (simp add: delete_book_def Let_def distinct_map_filter)
next
  case (SetStatus i ns)
  assume "distinct (map id' (books s))"
  then show ?thesis using SetStatus
    by (auto simp: change_status_def set_first_status_ids split: option.splits)
qed

lemma run_distinct:
  "distinct (map id' (books s)) \<Longrightarrow> distinct (map id' (books (run s cs)))"
  by (induction cs arbitrary: s) (simp_all add: perform_distinct)




text \<open>
  C9. When the ids of the collection are pairwise distinct, they are pairwise distinct
  after every sequence of \<^verbatim>\<open>add_book\<close>, \<^verbatim>\<open>delete_book\<close> and \<^verbatim>\<open>change_status\<close> calls;
  the empty collection is such a start.
\<close>

theorem distinct_ids_invariant:
  "distinct (map id' (books empty_library))
   \<and> (distinct (map id' (books s)) \<longrightarrow> distinct (map id' (books (run s cs))))"
  by (simp add: run_distinct empty_library_def)

theorem distinct_ids_invariant_witness:
  "distinct (map id' [dune, foundation])
   \<and> distinct (map id' (books (run \<lparr>books = [dune, foundation], data_file = Absent\<rparr>
        [Delete 2, Add ''Emma'' ''Austen'' 1815, SetStatus 1 status_checked_out])))
   \<and> map id' (books (run \<lparr>books = [dune, foundation], data_file = Absent\<rparr>
        [Delete 2, Add ''Emma'' ''Austen'' 1815, SetStatus 1 status_checked_out])) = [1, 2]"
proof -
  let ?s = "\<lparr>books = [dune, foundation], data_file = Absent\<rparr>"
  let ?cs = "[Delete 2, Add ''Emma'' ''Austen'' 1815, SetStatus 1 status_checked_out]"
  have d: "distinct (map id' (books ?s))" by (simp add: dune_def foundation_def)
  have r: "map id' (books (run ?s ?cs)) = [1, 2]"
    by (simp add: dune_def foundation_def generate_id_def max_default_def add_book_def
        delete_book_def change_status_def Let_def status_checked_out_def status_available_def)
  from d distinct_ids_invariant [of ?s ?cs]
  have "distinct (map id' (books (run ?s ?cs)))" by simp
  with d r show ?thesis by simp
qed

section \<open>Searching\<close>


lemma search_in_title:
  "search_in lower q ''title'' bs = Inr (filter (\<lambda>b. sublist (lower q) (lower (title b))) bs)"
  by (induction bs) (simp_all add: getattr_def attr_lower_def)

lemma search_in_author:
  "search_in lower q ''author'' bs = Inr (filter (\<lambda>b. sublist (lower q) (lower (author b))) bs)"
  by (induction bs) (simp_all add: getattr_def attr_lower_def)

lemma search_in_year: "search_in lower q ''year'' (b # bs) = Inl AttributeError"
  by (simp add: getattr_def attr_lower_def)

text \<open>
  The scenario of the specification: on a catalog that holds Dune, the query
  \<^verbatim>\<open>dune\<close> on the title finds it, whatever the case, and the query \<^verbatim>\<open>xyz\<close> finds
  nothing.
\<close>

lemma search_books_title_scenario:
  "search_books ascii_lower \<lparr>books = [dune, foundation], data_file = Absent\<rparr> ''dune'' ''title''
     = Inr [dune]
   \<and> search_books ascii_lower \<lparr>books = [dune, foundation], data_file = Absent\<rparr> ''DUNE''
       ''title'' = Inr [dune]
   \<and> search_books ascii_lower \<lparr>books = [dune, foundation], data_file = Absent\<rparr> ''xyz''
       ''title'' = Inr []"
  by code_simp

text \<open>
  C2 on the code. A search by \<^verbatim>\<open>title\<close> or by \<^verbatim>\<open>author\<close> returns, in collection order,
  exactly the records whose field contains the query when both are lowered. A search
  by \<^verbatim>\<open>year\<close> does not: \<^verbatim>\<open>year\<close> is an int, which has no \<^verbatim>\<open>lower\<close>, and on the
  catalog that holds Dune of 1965 the query 1965 raises AttributeError where the
  claim promises the record.
\<close>

theorem search_books_year_raises:
  "search_books lower s q ''title''
     = Inr (filter (\<lambda>b. sublist (lower q) (lower (title b))) (books s))
   \<and> search_books lower s q ''author''
     = Inr (filter (\<lambda>b. sublist (lower q) (lower (author b))) (books s))
   \<and> search_books lower \<lparr>books = [dune], data_file = save_data [dune]\<rparr> ''1965'' ''year''
     = Inl AttributeError"
proof (intro conjI)
  show "search_books lower s q ''title''
     = Inr (filter (\<lambda>b. sublist (lower q) (lower (title b))) (books s))"
    unfolding search_books_def by (rule search_in_title)
  show "search_books lower s q ''author''
     = Inr (filter (\<lambda>b. sublist (lower q) (lower (author b))) (books s))"
    unfolding search_books_def by (rule search_in_author)
  have "search_in lower ''1965'' ''year'' [dune] = Inl AttributeError"
    by (rule search_in_year)
  then show "search_books lower \<lparr>books = [dune], data_file = save_data [dune]\<rparr>
      ''1965'' ''year'' = Inl AttributeError"
    unfolding search_books_def by simp
qed

section \<open>Deleting a book\<close>





section \<open>Changing a status\<close>





text \<open>
  C10. The status is checked before the id is looked for: with a status that is
  neither legal string and an id no record has, \<^verbatim>\<open>change_status\<close> reports the bad
  status, not that the book is not found, and leaves the collection and the file as
  they are.
\<close>

theorem change_status_bad_status_first:
  assumes "ns \<notin> {status_available, status_checked_out}" and "i \<notin> id' ` set (books s)"
  shows "change_status s i ns = (BadStatus, s) \<and> fst (change_status s i ns) \<noteq> NotFound i"
  using assms by (simp add: change_status_def)

theorem change_status_bad_status_first_witness:
  "''lost'' \<notin> {status_available, status_checked_out}
   \<and> (7::int) \<notin> id' ` set [dune, foundation]
   \<and> change_status \<lparr>books = [dune, foundation], data_file = save_data [dune, foundation]\<rparr>
        7 ''lost''
     = (BadStatus, \<lparr>books = [dune, foundation], data_file = save_data [dune, foundation]\<rparr>)"
proof -
  have a: "''lost'' \<notin> {status_available, status_checked_out}"
    by (simp add: status_available_def status_checked_out_def)
  have b: "(7::int) \<notin> id' ` set (books \<lparr>books = [dune, foundation],
      data_file = save_data [dune, foundation]\<rparr>)"
    by (simp add: dune_def foundation_def)
  from change_status_bad_status_first [OF a b] a b show ?thesis by simp
qed

end
